theory Spec2Isabelle
  imports Complex_Main "HOL-Library.Word"
begin

section \<open>Dense storage of the linear-algebra library\<close>

text \<open>
  The solver keeps its per-segment constraint quantities in dynamically sized dense
  matrices (\<^verbatim>\<open>Matrix6Xd\<close>, \<^verbatim>\<open>Eigen::MatrixXd\<close>, \<^verbatim>\<open>Eigen::VectorXd\<close>). A matrix is
  its shape and its coefficient storage, column after column. A \<^verbatim>\<open>double\<close> is read
  as a real number; the only coefficient the constructor below stores is the constant
  zero, which is exact.
\<close>

record matrix =
  rows :: nat
  cols :: nat
  coeffs :: "real list"

text \<open>What the default constructors leave behind: no coefficients at all.\<close>

definition Matrix6Xd :: matrix where
  "Matrix6Xd = \<lparr>rows = 6, cols = 0, coeffs = []\<rparr>"

definition MatrixXd :: matrix where
  "MatrixXd = \<lparr>rows = 0, cols = 0, coeffs = []\<rparr>"

definition VectorXd :: matrix where
  "VectorXd = \<lparr>rows = 0, cols = 1, coeffs = []\<rparr>"

text \<open>
  \<^verbatim>\<open>resize(r, c)\<close> keeps the storage when the number of coefficients stays the same and
  otherwise allocates new storage, whose contents are whatever the allocator returns:
  \<open>junk\<close> stands for that uninitialised memory. The allocation is taken to succeed; when
  it does not, an exception leaves the constructor and there is no record to speak of.
\<close>

definition resize :: "(nat \<Rightarrow> real) \<Rightarrow> nat \<Rightarrow> nat \<Rightarrow> matrix \<Rightarrow> matrix" where
  "resize junk r c m =
     (if rows m * cols m = r * c then m\<lparr>rows := r, cols := c\<rparr>
      else \<lparr>rows = r, cols = c, coeffs = map junk [0..<r * c]\<rparr>)"

text \<open>\<^verbatim>\<open>setZero()\<close> overwrites every stored coefficient and leaves the shape alone.\<close>

definition setZero :: "matrix \<Rightarrow> matrix" where
  "setZero m = m\<lparr>coeffs := map (\<lambda>_. 0) (coeffs m)\<rparr>"

text \<open>The \<open>r\<close> by \<open>c\<close> matrix all of whose coefficients are zero.\<close>

definition Zero :: "nat \<Rightarrow> nat \<Rightarrow> matrix" where
  "Zero r c = \<lparr>rows = r, cols = c, coeffs = replicate (r * c) 0\<rparr>"

section \<open>The per-segment record\<close>

text \<open>
  \<^verbatim>\<open>struct segment_info\<close> of \<^verbatim>\<open>chainidsolver_vereshchagin.hpp\<close>, field by field and in
  the order of the declaration. The spatial types \<^verbatim>\<open>Frame\<close>, \<^verbatim>\<open>Twist\<close>, \<^verbatim>\<open>Wrench\<close> and
  \<^verbatim>\<open>ArticulatedBodyInertia\<close> are declared in headers outside this file; they are the
  type parameters \<open>'f\<close>, \<open>'t\<close>, \<open>'w\<close> and \<open>'a\<close>.
\<close>

record ('f, 't, 'w, 'a) segment_info =
  F :: 'f
  F_base :: 'f
  Z :: 't
  v :: 't
  acc :: 't
  U :: 'w
  R :: 'w
  R_tilde :: 'w
  C :: 't
  A :: 't
  H :: 'a
  P :: 'a
  P_tilde :: 'a
  PZ :: 'w
  PC :: 'w
  D :: real
  E :: matrix
  E_tilde :: matrix
  M :: matrix
  G :: matrix
  EZ :: matrix
  nullspaceAccComp :: real
  constAccComp :: real
  biasAccComp :: real
  totalBias :: real
  u :: real

text \<open>
  The state of a record when the constructor's body starts: the members without an
  initialiser are default-constructed (\<open>Frame0\<close>, \<open>Twist0\<close>, \<open>Wrench0\<close> and \<open>Inertia0\<close>
  are what the default constructors of the four spatial types produce), the six scalars
  are initialised with \<^verbatim>\<open>0\<close>.
\<close>

definition segment_info_members ::
  "'f \<Rightarrow> 't \<Rightarrow> 'w \<Rightarrow> 'a \<Rightarrow> ('f, 't, 'w, 'a) segment_info" where
  "segment_info_members Frame0 Twist0 Wrench0 Inertia0 =
     \<lparr>F = Frame0, F_base = Frame0, Z = Twist0, v = Twist0, acc = Twist0,
      U = Wrench0, R = Wrench0, R_tilde = Wrench0, C = Twist0, A = Twist0,
      H = Inertia0, P = Inertia0, P_tilde = Inertia0, PZ = Wrench0, PC = Wrench0,
      D = 0, E = Matrix6Xd, E_tilde = Matrix6Xd, M = MatrixXd, G = VectorXd,
      EZ = VectorXd, nullspaceAccComp = 0, constAccComp = 0, biasAccComp = 0,
      totalBias = 0, u = 0\<rparr>"

text \<open>
  The constructor \<^verbatim>\<open>segment_info(unsigned int nc)\<close>: the ten statements of its body, in
  their order. \<open>junk k\<close> is the uninitialised memory the \<open>k\<close>-th \<^verbatim>\<open>resize\<close> may hand out.
\<close>

definition segment_info_ctor ::
  "'f \<Rightarrow> 't \<Rightarrow> 'w \<Rightarrow> 'a \<Rightarrow> (nat \<Rightarrow> nat \<Rightarrow> real) \<Rightarrow> 32 word
     \<Rightarrow> ('f, 't, 'w, 'a) segment_info" where
  "segment_info_ctor Frame0 Twist0 Wrench0 Inertia0 junk nc =
     (let s0 = segment_info_members Frame0 Twist0 Wrench0 Inertia0;
          s1 = s0\<lparr>E := resize (junk 0) 6 (unat nc) (E s0)\<rparr>;
          s2 = s1\<lparr>E_tilde := resize (junk 1) 6 (unat nc) (E_tilde s1)\<rparr>;
          s3 = s2\<lparr>G := resize (junk 2) (unat nc) 1 (G s2)\<rparr>;
          s4 = s3\<lparr>M := resize (junk 3) (unat nc) (unat nc) (M s3)\<rparr>;
          s5 = s4\<lparr>EZ := resize (junk 4) (unat nc) 1 (EZ s4)\<rparr>;
          s6 = s5\<lparr>E := setZero (E s5)\<rparr>;
          s7 = s6\<lparr>E_tilde := setZero (E_tilde s6)\<rparr>;
          s8 = s7\<lparr>M := setZero (M s7)\<rparr>;
          s9 = s8\<lparr>G := setZero (G s8)\<rparr>
      in s9\<lparr>EZ := setZero (EZ s9)\<rparr>)"

section \<open>The chain and the solver object\<close>

text \<open>
  The chain is declared outside this file. What the solver asks of it are its two counts:
  a chain is the list of its segments, each entry telling whether the segment's joint is
  movable. Both counts are \<^verbatim>\<open>unsigned int\<close>.
\<close>

type_synonym Chain = "bool list"

definition getNrOfSegments :: "Chain \<Rightarrow> 32 word" where
  "getNrOfSegments c = of_nat (length c)"

definition getNrOfJoints :: "Chain \<Rightarrow> 32 word" where
  "getNrOfJoints c = of_nat (length (filter (\<lambda>movable. movable) c))"

text \<open>
  The member \<^verbatim>\<open>const Chain& chain\<close> is a reference: the solver holds the address of a
  \<^verbatim>\<open>Chain\<close> object that lives elsewhere. The store maps an address to the object living
  there, if any.
\<close>

type_synonym store = "nat \<Rightarrow> Chain option"

text \<open>
  The data members of \<^verbatim>\<open>ChainHdSolver_Vereshchagin\<close> that the statements below read:
  the chain reference, the three counts, the root acceleration and the table of
  per-segment records. The scratch buffers of the linear solve (\<^verbatim>\<open>alfa_N\<close>, \<^verbatim>\<open>Um\<close>,
  \<^verbatim>\<open>Sm\<close> and the others) are written by member functions whose bodies are outside the
  header and are left out.
\<close>

record ('f, 't, 'w, 'a) solver =
  chain :: nat
  nj :: "32 word"
  ns :: "32 word"
  nc :: "32 word"
  acc_root :: 't
  results :: "('f, 't, 'w, 'a) segment_info list"

text \<open>\<^verbatim>\<open>std::vector::resize(n, x)\<close>: the first \<open>n\<close> elements stay, copies of \<open>x\<close> fill up.\<close>

definition vector_resize :: "nat \<Rightarrow> 'x \<Rightarrow> 'x list \<Rightarrow> 'x list" where
  "vector_resize n x xs = take n xs @ replicate (n - length xs) x"

text \<open>
  Modelled from the spec: the body of the constructor
  \<^verbatim>\<open>ChainHdSolver_Vereshchagin(const Chain& chain, Twist root_acc, unsigned int nc)\<close> is
  missing (the header only declares it). By the declaration of the member, \<^verbatim>\<open>chain\<close> is
  a reference bound to the caller's object (the spec: the solver depends on, but does not
  own, the chain); \<open>ns\<close> is the chain's segment count, \<open>nj\<close> its count of movable joints,
  \<open>nc\<close> is fixed at construction, and \<open>results\<close> has exactly \<open>ns + 1\<close> records. Reading a
  reference to an object that does not exist has no defined result: \<open>None\<close>.
\<close>

definition ChainHdSolver_Vereshchagin ::
  "'f \<Rightarrow> 't \<Rightarrow> 'w \<Rightarrow> 'a \<Rightarrow> (nat \<Rightarrow> nat \<Rightarrow> real) \<Rightarrow> store \<Rightarrow> nat \<Rightarrow> 't \<Rightarrow> 32 word
     \<Rightarrow> ('f, 't, 'w, 'a) solver option" where
  "ChainHdSolver_Vereshchagin Frame0 Twist0 Wrench0 Inertia0 junk st chain_arg root_acc nc_arg =
     (case st chain_arg of
        None \<Rightarrow> None
      | Some c \<Rightarrow>
          Some \<lparr>chain = chain_arg, nj = getNrOfJoints c, ns = getNrOfSegments c, nc = nc_arg,
                acc_root = root_acc,
                results = replicate (unat (getNrOfSegments c) + 1)
                  (segment_info_ctor Frame0 Twist0 Wrench0 Inertia0 junk nc_arg)\<rparr>)"

text \<open>
  Modelled from the spec: the body of \<^verbatim>\<open>updateInternalDataStructures()\<close> is missing. The
  spec: it re-derives \<open>ns\<close> and \<open>nj\<close> from the chain and resizes the buffers. The chain is
  read through the reference member, in the store of the moment of the call.
\<close>

definition updateInternalDataStructures ::
  "'f \<Rightarrow> 't \<Rightarrow> 'w \<Rightarrow> 'a \<Rightarrow> (nat \<Rightarrow> nat \<Rightarrow> real) \<Rightarrow> store \<Rightarrow> ('f, 't, 'w, 'a) solver
     \<Rightarrow> ('f, 't, 'w, 'a) solver option" where
  "updateInternalDataStructures Frame0 Twist0 Wrench0 Inertia0 junk st slv =
     (case st (chain slv) of
        None \<Rightarrow> None
      | Some c \<Rightarrow>
          Some (slv\<lparr>nj := getNrOfJoints c, ns := getNrOfSegments c,
                    results := vector_resize (unat (getNrOfSegments c) + 1)
                      (segment_info_ctor Frame0 Twist0 Wrench0 Inertia0 junk (nc slv))
                      (results slv)\<rparr>))"

section \<open>A freshly constructed record\<close>

lemma map_const_zero: "map (\<lambda>_. 0::real) xs = replicate (length xs) 0"
  by (induction xs) simp_all

lemma setZero_resize_Matrix6Xd: "setZero (resize junk 6 n Matrix6Xd) = Zero 6 n"
  by (simp add: setZero_def resize_def Matrix6Xd_def Zero_def map_const_zero)

lemma setZero_resize_MatrixXd: "setZero (resize junk n n MatrixXd) = Zero n n"
  by (simp add: setZero_def resize_def MatrixXd_def Zero_def map_const_zero)

lemma setZero_resize_VectorXd:
  "setZero (resize junk n (Suc 0) VectorXd) = Zero n (Suc 0)"
  by (simp add: setZero_def resize_def VectorXd_def Zero_def map_const_zero)

text \<open>
  C10. For every constraint count \<open>k\<close> (and whatever the allocator hands out), a freshly
  constructed per-segment record has the 6 by \<open>k\<close> matrices \<open>E\<close> and \<open>E_tilde\<close>, the
  \<open>k\<close> by \<open>k\<close> matrix \<open>M\<close> and the vectors \<open>G\<close> and \<open>EZ\<close> of length \<open>k\<close> all zero, and
  its scalars \<open>D\<close>, \<open>nullspaceAccComp\<close>, \<open>constAccComp\<close>, \<open>biasAccComp\<close>, \<open>totalBias\<close> and
  \<open>u\<close> equal to 0.
\<close>

theorem segment_info_ctor_zero:
  "(let s = segment_info_ctor Frame0 Twist0 Wrench0 Inertia0 junk k in
      E s = Zero 6 (unat k) \<and> E_tilde s = Zero 6 (unat k)
    \<and> M s = Zero (unat k) (unat k)
    \<and> G s = Zero (unat k) 1 \<and> EZ s = Zero (unat k) 1
    \<and> D s = 0 \<and> nullspaceAccComp s = 0 \<and> constAccComp s = 0
    \<and> biasAccComp s = 0 \<and> totalBias s = 0 \<and> u s = 0)"
  unfolding segment_info_ctor_def Let_def
  by (simp add: segment_info_members_def setZero_resize_Matrix6Xd
      setZero_resize_MatrixXd setZero_resize_VectorXd)

section \<open>The chain is held by reference\<close>

text \<open>
  C9. The constructor's documentation promises an internal copy of the chain, so that no
  later operation of the solver would depend on the caller's chain object. The member is
  a reference instead. A solver built for a chain of one segment has \<open>ns = 1\<close> and two
  records; once the caller has added a segment to its own chain,
  \<^verbatim>\<open>updateInternalDataStructures\<close> sees two segments and grows the table to three
  records, and once the caller's chain is gone the reference dangles.
\<close>

theorem solver_reads_callers_chain:
  "(case ChainHdSolver_Vereshchagin () () () () (\<lambda>_ _. 0) [0 \<mapsto> [True]] 0 () 0 of
      None \<Rightarrow> False
    | Some slv \<Rightarrow>
        ns slv = 1 \<and> length (results slv) = 2
      \<and> map_option ns
          (updateInternalDataStructures () () () () (\<lambda>_ _. 0) [0 \<mapsto> [True]] slv) = Some 1
      \<and> map_option ns
          (updateInternalDataStructures () () () () (\<lambda>_ _. 0) [0 \<mapsto> [True, True]] slv)
          = Some 2
      \<and> map_option (\<lambda>s. length (results s))
          (updateInternalDataStructures () () () () (\<lambda>_ _. 0) [0 \<mapsto> [True, True]] slv)
          = Some 3
      \<and> updateInternalDataStructures () () () () (\<lambda>_ _. 0) Map.empty slv = None)"
  by (simp add: ChainHdSolver_Vereshchagin_def updateInternalDataStructures_def
      getNrOfSegments_def getNrOfJoints_def vector_resize_def)

end
